theory Spec2Isabelle
  imports Main
begin

section \<open>Data model of wssrv.go\<close>

text \<open>
  A connection (\<^verbatim>\<open>*websocket.Conn\<close>) is compared by pointer identity only, so it is a
  natural number here.
\<close>

type_synonym conn = nat

text \<open>\<^verbatim>\<open>type Request struct\<close>: the decoded request of a client.\<close>

record Request =
  Command :: string
  Channel :: string
  Data :: string

text \<open>\<^verbatim>\<open>type RequestChannelIdResponse struct\<close>.\<close>

record RequestChannelIdResponse =
  ChannelId :: string

text \<open>What a call of \<^verbatim>\<open>websocket.JSON.Send\<close> is given: a response or a request.\<close>

datatype payload = CidJSON RequestChannelIdResponse | ReqJSON Request

text \<open>
  What \<^verbatim>\<open>websocket.JSON.Receive(ws,&data)\<close> gives back: \<^verbatim>\<open>io.EOF\<close>, another
  error, or no error with the value that \<^verbatim>\<open>data\<close> holds after the call.
\<close>

datatype recv = EOF | RecvErr | Msg Request

text \<open>The ways the handler stops: the return at end of stream, or one of its panics.\<close>

datatype panic = ReceiveFailed | CouldNotGenerate | Unhandled | CloseFailed

datatype exit = Disconnected | Panicked panic

text \<open>
  The shared state. \<^verbatim>\<open>connections\<close> is the global map from channel id to the slice of
  connections; \<open>rand_calls\<close> counts the calls of \<^verbatim>\<open>rand.Intn\<close> made so far;
  \<open>sent\<close> lists the calls of \<^verbatim>\<open>websocket.JSON.Send\<close> in order (the error a send
  returns is dropped by the code); \<open>closed\<close> lists the calls of \<^verbatim>\<open>ws.Close\<close>;
  \<open>exits\<close> records how the handler of a connection stopped.
\<close>

record server =
  connections :: "string \<rightharpoonup> conn list"
  rand_calls :: nat
  sent :: "(conn \<times> payload) list"
  closed :: "conn list"
  exits :: "conn \<rightharpoonup> exit"

definition init_server :: server where
  "init_server = \<lparr>connections = Map.empty, rand_calls = 0, sent = [], closed = [], exits = Map.empty\<rparr>"

text \<open>Indexing the Go map: a missing key gives the nil slice.\<close>

definition members :: "(string \<rightharpoonup> conn list) \<Rightarrow> string \<Rightarrow> conn list" where
  "members m k = (case m k of None \<Rightarrow> [] | Some cs \<Rightarrow> cs)"

section \<open>generateChannelId\<close>

definition letters :: string where
  "letters = ''ABCDEFGHIJKLMNOPQRSTUVWXYZ''"

definition generateChannelIdLength :: nat where
  "generateChannelIdLength = 4"

definition generateMaxTries :: nat where
  "generateMaxTries = 20"

text \<open>
  The random source is a parameter: \<open>rnd k\<close> is the raw value behind the \<open>k\<close>-th call
  of \<^verbatim>\<open>rand.Intn\<close>, and \<^verbatim>\<open>rand.Intn(n)\<close> is that value modulo \<open>n\<close>.
\<close>

definition Intn :: "(nat \<Rightarrow> nat) \<Rightarrow> nat \<Rightarrow> nat \<Rightarrow> nat" where
  "Intn rnd k n = rnd k mod n"

text \<open>The inner loop \<^verbatim>\<open>for i := range id\<close>: one letter per position.\<close>

definition fill_id :: "(nat \<Rightarrow> nat) \<Rightarrow> nat \<Rightarrow> string" where
  "fill_id rnd k =
     map (\<lambda>i. letters ! Intn rnd (k + i) (length letters)) [0..<generateChannelIdLength]"

text \<open>
  The outer loop \<^verbatim>\<open>for try:=0; try<generateMaxTries; try++\<close>. The result is the id,
  the error flag and the number of \<^verbatim>\<open>rand.Intn\<close> calls made.
\<close>

function try_loop ::
  "(nat \<Rightarrow> nat) \<Rightarrow> (string \<rightharpoonup> conn list) \<Rightarrow> nat \<Rightarrow> nat \<Rightarrow> string \<times> bool \<times> nat" where
  "try_loop rnd m try k =
     (if try < generateMaxTries then
        (let id = fill_id rnd k; k' = k + generateChannelIdLength in
         if m id = None then (id, False, k')
         else try_loop rnd m (Suc try) k')
      else ('''', True, k))"
  by pat_completeness auto
termination
  by (relation "measure (\<lambda>(rnd, m, try, k). generateMaxTries - try)") auto

declare try_loop.simps [simp del]

definition generateChannelId ::
  "(nat \<Rightarrow> nat) \<Rightarrow> (string \<rightharpoonup> conn list) \<Rightarrow> nat \<Rightarrow> string \<times> bool \<times> nat" where
  "generateChannelId rnd m k = try_loop rnd m 0 k"

section \<open>WsHandler\<close>

text \<open>The loop of the \<^verbatim>\<open>send\<close> case over the slice of the channel.\<close>

primrec send_loop :: "conn \<Rightarrow> Request \<Rightarrow> conn list \<Rightarrow> (conn \<times> payload) list \<Rightarrow> (conn \<times> payload) list" where
  "send_loop ws data [] out = out"
| "send_loop ws data (c # cs) out =
     send_loop ws data cs (if c \<noteq> ws then out @ [(c, ReqJSON data)] else out)"

text \<open>
  The \<^verbatim>\<open>switch data.Command\<close>: the panic raised, if any, and the state afterwards.
\<close>

definition dispatch :: "(nat \<Rightarrow> nat) \<Rightarrow> conn \<Rightarrow> Request \<Rightarrow> server \<Rightarrow> panic option \<times> server" where
  "dispatch rnd ws data s =
     (if Command data = '''' then (None, s)
      else if Command data = ''requestChannelId'' then
        (case generateChannelId rnd (connections s) (rand_calls s) of
           (channelId, err, k) \<Rightarrow>
             if err then (Some CouldNotGenerate, s\<lparr>rand_calls := k\<rparr>)
             else (None, s\<lparr>connections := (connections s)(channelId \<mapsto> []),
                           rand_calls := k,
                           sent := sent s @ [(ws, CidJSON \<lparr>ChannelId = channelId\<rparr>)]\<rparr>))
      else if Command data = ''connectChannel'' then
        (None, s\<lparr>connections :=
                   (connections s)(Channel data \<mapsto> members (connections s) (Channel data) @ [ws])\<rparr>)
      else if Command data = ''send'' then
        (None, s\<lparr>sent := send_loop ws data (members (connections s) (Channel data)) (sent s)\<rparr>)
      else (Some Unhandled, s))"

text \<open>
  The deferred cleanup: it closes the connection and nothing else (removing the connection
  from its channel is a TODO in the source), and panics when the close fails.
  \<open>cerr ws\<close> tells whether \<^verbatim>\<open>ws.Close()\<close> returns an error.
\<close>

definition cleanup :: "(conn \<Rightarrow> bool) \<Rightarrow> conn \<Rightarrow> exit \<Rightarrow> server \<Rightarrow> server" where
  "cleanup cerr ws e s =
     s\<lparr>closed := closed s @ [ws],
       exits := (exits s)(ws \<mapsto> (if cerr ws then Panicked CloseFailed else e))\<rparr>"

text \<open>
  One iteration of the \<^verbatim>\<open>for\<close> loop of the handler of \<open>ws\<close>, with the deferred cleanup when
  the iteration leaves the function.
\<close>

definition WsHandler_step :: "(nat \<Rightarrow> nat) \<Rightarrow> (conn \<Rightarrow> bool) \<Rightarrow> conn \<Rightarrow> recv \<Rightarrow> server \<Rightarrow> server" where
  "WsHandler_step rnd cerr ws r s =
     (case r of
        EOF \<Rightarrow> cleanup cerr ws Disconnected s
      | RecvErr \<Rightarrow> cleanup cerr ws (Panicked ReceiveFailed) s
      | Msg data \<Rightarrow>
          (case dispatch rnd ws data s of
             (None, s') \<Rightarrow> s'
           | (Some p, s') \<Rightarrow> cleanup cerr ws (Panicked p) s'))"

text \<open>
  The server: every connection runs its own handler, and the handlers share the state.
  A run is the list of the receive results in the order in which the iterations happen;
  a handler that has left takes no further part. The handlers use the map without any
  lock; here one iteration of a handler is one step. The http server that calls the handler
  recovers a panic of the handler, so a panic ends the handler of that connection only.
\<close>

fun serve :: "(nat \<Rightarrow> nat) \<Rightarrow> (conn \<Rightarrow> bool) \<Rightarrow> (conn \<times> recv) list \<Rightarrow> server \<Rightarrow> server" where
  "serve rnd cerr [] s = s"
| "serve rnd cerr ((ws, r) # evs) s =
     serve rnd cerr evs (if exits s ws = None then WsHandler_step rnd cerr ws r s else s)"

section \<open>Concrete inputs\<close>

text \<open>Random sources: one that always draws the first letter, one that draws
  \<open>AAAA\<close>, \<open>BBBB\<close>, ... in turn.\<close>

definition rnd_zero :: "nat \<Rightarrow> nat" where
  "rnd_zero k = 0"

definition rnd_quarter :: "nat \<Rightarrow> nat" where
  "rnd_quarter k = k div 4"

text \<open>A transport on which closing never fails.\<close>

definition close_ok :: "conn \<Rightarrow> bool" where
  "close_ok c = False"

text \<open>The three requests of the protocol and one that is not.\<close>

definition requestChannelId_req :: Request where
  "requestChannelId_req = \<lparr>Command = ''requestChannelId'', Channel = '''', Data = ''''\<rparr>"

definition connectChannel_req :: "string \<Rightarrow> Request" where
  "connectChannel_req ch = \<lparr>Command = ''connectChannel'', Channel = ch, Data = ''''\<rparr>"

definition send_req :: "string \<Rightarrow> string \<Rightarrow> Request" where
  "send_req ch d = \<lparr>Command = ''send'', Channel = ch, Data = d\<rparr>"

definition bogus_req :: Request where
  "bogus_req = \<lparr>Command = ''bogus'', Channel = '''', Data = ''''\<rparr>"

text \<open>A registry in which only \<open>AAAA\<close> is registered.\<close>

definition reg_AAAA :: "string \<rightharpoonup> conn list" where
  "reg_AAAA = [''AAAA'' \<mapsto> []]"

text \<open>A server whose registry holds only \<open>AAAA\<close>.\<close>

definition srv_AAAA :: server where
  "srv_AAAA = init_server\<lparr>connections := reg_AAAA\<rparr>"

text \<open>The server after connections 1 and 2 have joined channel \<open>AB\<close>.\<close>

definition two_joined :: server where
  "two_joined =
     serve rnd_zero close_ok
       [(1, Msg (connectChannel_req ''AB'')), (2, Msg (connectChannel_req ''AB''))] init_server"

section \<open>Facts about the channel id generator\<close>

lemma length_letters: "length letters = 26"
  by (simp add: letters_def)

lemma fill_id_length: "length (fill_id rnd k) = 4"
  by (simp add: fill_id_def generateChannelIdLength_def)

lemma fill_id_letters: "set (fill_id rnd k) \<subseteq> set letters"
  by (auto simp: fill_id_def Intn_def length_letters)

lemma try_loop_char:
  "try_loop rnd m try k = (cid, err, k') \<Longrightarrow> try \<le> generateMaxTries \<Longrightarrow>
     \<exists>n. n \<le> generateMaxTries - try \<and> k' = k + 4 * n \<and>
       (err \<longrightarrow> cid = '''' \<and> n = generateMaxTries - try \<and>
             (\<forall>j<n. m (fill_id rnd (k + 4 * j)) \<noteq> None)) \<and>
       (\<not> err \<longrightarrow> 1 \<le> n \<and> cid = fill_id rnd (k + 4 * (n - 1)) \<and> m cid = None \<and>
             (\<forall>j<n - 1. m (fill_id rnd (k + 4 * j)) \<noteq> None))"
proof (induction rnd m "try" k rule: try_loop.induct)
  case (1 rnd m "try" k)
  show ?case
  proof (cases "try < generateMaxTries")
    case False
    with "1.prems" show ?thesis
      by (simp add: try_loop.simps [of rnd m "try" k])
  next
    case True
    show ?thesis
    proof (cases "m (fill_id rnd k) = None")
      case free: True
      with True "1.prems" have "cid = fill_id rnd k" "\<not> err" "k' = k + 4"
        by (simp_all add: try_loop.simps [of rnd m "try" k] Let_def generateChannelIdLength_def)
      with free True show ?thesis
        by (intro exI [of _ 1]) simp
    next
      case taken: False
      with True "1.prems" have rec:
        "try_loop rnd m (Suc try) (k + generateChannelIdLength) = (cid, err, k')"
        by (simp add: try_loop.simps [of rnd m "try" k] Let_def)
      from True have le: "Suc try \<le> generateMaxTries" by simp
      from "1.IH" [OF True refl refl taken rec le, unfolded generateChannelIdLength_def]
      obtain n where
        n: "n \<le> generateMaxTries - Suc try" "k' = k + 4 + 4 * n"
        and ce: "err \<Longrightarrow> cid = '''' \<and> n = generateMaxTries - Suc try \<and>
             (\<forall>j<n. m (fill_id rnd (k + 4 + 4 * j)) \<noteq> None)"
        and cs: "\<not> err \<Longrightarrow> 1 \<le> n \<and> cid = fill_id rnd (k + 4 + 4 * (n - 1)) \<and> m cid = None \<and>
             (\<forall>j<n - 1. m (fill_id rnd (k + 4 + 4 * j)) \<noteq> None)"
        by blast
      have shift: "\<And>b. (\<forall>j<b. m (fill_id rnd (k + 4 + 4 * j)) \<noteq> None) \<Longrightarrow>
          (\<forall>j<Suc b. m (fill_id rnd (k + 4 * j)) \<noteq> None)"
      proof (intro allI impI)
        fix b j assume a: "\<forall>j<b. m (fill_id rnd (k + 4 + 4 * j)) \<noteq> None" and j: "j < Suc b"
        show "m (fill_id rnd (k + 4 * j)) \<noteq> None"
        proof (cases j)
          case 0 with taken show ?thesis by simp
        next
          case (Suc i)
          with j a have "m (fill_id rnd (k + 4 + 4 * i)) \<noteq> None" by simp
          with Suc show ?thesis by (simp add: add.assoc)
        qed
      qed
      from True have sm: "Suc (generateMaxTries - Suc try) = generateMaxTries - try"
        by arith
      from n(1) sm have nle: "Suc n \<le> generateMaxTries - try"
        by arith
      show ?thesis
      proof (cases err)
        case True
        from ce [OF True] have f: "cid = ''''" "n = generateMaxTries - Suc try"
          "\<forall>j<n. m (fill_id rnd (k + 4 + 4 * j)) \<noteq> None" by blast+
        from shift [OF f(3)] f(1,2) n(2) sm nle True show ?thesis
          by (intro exI [of _ "Suc n"]) simp
      next
        case False
        from cs [OF False] have f: "1 \<le> n" "cid = fill_id rnd (k + 4 + 4 * (n - 1))" "m cid = None"
          "\<forall>j<n - 1. m (fill_id rnd (k + 4 + 4 * j)) \<noteq> None" by blast+
        from f(1) have e: "k + 4 + 4 * (n - 1) = k + 4 * n" by (cases n) simp_all
        from f(1) have e2: "Suc (n - 1) = n" by simp
        from shift [OF f(4)] e2 have a: "\<forall>j<n. m (fill_id rnd (k + 4 * j)) \<noteq> None" by simp
        from f(2) have c: "cid = fill_id rnd (k + 4 * n)" unfolding e .
        from a c f(3) n(2) nle False show ?thesis
          by (intro exI [of _ "Suc n"]) simp
      qed
    qed
  qed
qed

lemma gen_ok:
  assumes "generateChannelId rnd m k = (cid, False, k')"
  shows "cid \<notin> dom m \<and> length cid = 4 \<and> set cid \<subseteq> set letters"
proof -
  from assms have t: "try_loop rnd m 0 k = (cid, False, k')"
    by (simp add: generateChannelId_def)
  from try_loop_char [OF t] obtain n where
    "cid = fill_id rnd (k + 4 * (n - 1))" "m cid = None"
    by auto
  then show ?thesis
    using fill_id_length [of rnd] fill_id_letters [of rnd] by (auto simp: dom_def)
qed

lemma gen_example:
  "generateChannelId rnd_quarter reg_AAAA 0 = (''BBBB'', False, 8)"
  by (simp add: generateChannelId_def try_loop.simps fill_id_def Intn_def letters_def
      generateMaxTries_def generateChannelIdLength_def upt_conv_Cons rnd_quarter_def reg_AAAA_def)

lemma gen_exhausted:
  "generateChannelId rnd_zero reg_AAAA 0 = ('''', True, 80)"
  by (simp add: generateChannelId_def try_loop.simps fill_id_def Intn_def letters_def
      generateMaxTries_def generateChannelIdLength_def upt_conv_Cons rnd_zero_def reg_AAAA_def)

section \<open>Facts about the handler\<close>

lemma send_loop_eq:
  "send_loop ws d cs out = out @ map (\<lambda>c. (c, ReqJSON d)) (filter (\<lambda>c. c \<noteq> ws) cs)"
  by (induction cs arbitrary: out) simp_all



lemma dispatch_send:
  "Command d = ''send'' \<Longrightarrow>
   dispatch rnd ws d s =
     (None, s\<lparr>sent := sent s @ map (\<lambda>c. (c, ReqJSON d))
                 (filter (\<lambda>c. c \<noteq> ws) (members (connections s) (Channel d)))\<rparr>)"
  by (simp add: dispatch_def send_loop_eq)

lemma dispatch_connect:
  "Command d = ''connectChannel'' \<Longrightarrow>
   dispatch rnd ws d s =
     (None, s\<lparr>connections :=
       (connections s)(Channel d \<mapsto> members (connections s) (Channel d) @ [ws])\<rparr>)"
  by (simp add: dispatch_def)

lemma dispatch_unhandled:
  "Command d \<notin> {'''', ''requestChannelId'', ''connectChannel'', ''send''} \<Longrightarrow>
   dispatch rnd ws d s = (Some Unhandled, s)"
  by (simp add: dispatch_def)

lemma dispatch_same:
  assumes "connections s = connections t" "rand_calls s = rand_calls t" "sent s = sent t"
  shows "fst (dispatch rnd c d s) = fst (dispatch rnd c d t) \<and>
         connections (snd (dispatch rnd c d s)) = connections (snd (dispatch rnd c d t)) \<and>
         rand_calls (snd (dispatch rnd c d s)) = rand_calls (snd (dispatch rnd c d t)) \<and>
         sent (snd (dispatch rnd c d s)) = sent (snd (dispatch rnd c d t))"
  using assms by (simp add: dispatch_def split: prod.splits)

lemma dispatch_keeps:
  "exits (snd (dispatch rnd c d s)) = exits s \<and> closed (snd (dispatch rnd c d s)) = closed s"
  by (simp add: dispatch_def split: prod.splits)

text \<open>
  A handler that has left does not influence the others: when two states differ only in
  that the handler of \<open>ws\<close> has left in the first, a step of another connection keeps
  them so.
\<close>

lemma step_same:
  assumes "c \<noteq> ws"
    and "connections s = connections t" "rand_calls s = rand_calls t" "sent s = sent t"
    and "\<forall>x. x \<noteq> ws \<longrightarrow> exits s x = exits t x"
    and "set (closed s) = insert ws (set (closed t))"
    and "exits s ws \<noteq> None"
  shows "connections (WsHandler_step rnd cerr c r s) = connections (WsHandler_step rnd cerr c r t) \<and>
         rand_calls (WsHandler_step rnd cerr c r s) = rand_calls (WsHandler_step rnd cerr c r t) \<and>
         sent (WsHandler_step rnd cerr c r s) = sent (WsHandler_step rnd cerr c r t) \<and>
         (\<forall>x. x \<noteq> ws \<longrightarrow> exits (WsHandler_step rnd cerr c r s) x = exits (WsHandler_step rnd cerr c r t) x) \<and>
         set (closed (WsHandler_step rnd cerr c r s)) = insert ws (set (closed (WsHandler_step rnd cerr c r t))) \<and>
         exits (WsHandler_step rnd cerr c r s) ws = exits s ws"
proof (cases r)
  case EOF
  with assms show ?thesis by (auto simp: WsHandler_step_def cleanup_def)
next
  case RecvErr
  with assms show ?thesis by (auto simp: WsHandler_step_def cleanup_def)
next
  case (Msg d)
  obtain p s' where ds: "dispatch rnd c d s = (p, s')" by (cases "dispatch rnd c d s")
  obtain q t' where dt: "dispatch rnd c d t = (q, t')" by (cases "dispatch rnd c d t")
  from dispatch_same [OF assms(2-4), of rnd c d] ds dt
  have e: "p = q" "connections s' = connections t'" "rand_calls s' = rand_calls t'" "sent s' = sent t'"
    by simp_all
  from dispatch_keeps [of rnd c d s] ds have ks: "exits s' = exits s" "closed s' = closed s" by simp_all
  from dispatch_keeps [of rnd c d t] dt have kt: "exits t' = exits t" "closed t' = closed t" by simp_all
  show ?thesis
  proof (cases p)
    case None
    with Msg ds dt e ks kt assms show ?thesis by (simp add: WsHandler_step_def)
  next
    case (Some a)
    with Msg ds dt e ks kt assms show ?thesis by (auto simp: WsHandler_step_def cleanup_def)
  qed
qed

text \<open>
  The same for a whole run: the run from the state in which \<open>ws\<close> has left agrees,
  on everything but the bookkeeping of \<open>ws\<close>, with the run from the other state in which
  the receive results of \<open>ws\<close> are taken out.
\<close>

lemma serve_same:
  assumes "connections s = connections t" "rand_calls s = rand_calls t" "sent s = sent t"
    and "\<forall>x. x \<noteq> ws \<longrightarrow> exits s x = exits t x"
    and "set (closed s) = insert ws (set (closed t))"
    and "exits s ws \<noteq> None"
  shows "connections (serve rnd cerr evs s) = connections (serve rnd cerr (filter (\<lambda>e. fst e \<noteq> ws) evs) t) \<and>
         rand_calls (serve rnd cerr evs s) = rand_calls (serve rnd cerr (filter (\<lambda>e. fst e \<noteq> ws) evs) t) \<and>
         sent (serve rnd cerr evs s) = sent (serve rnd cerr (filter (\<lambda>e. fst e \<noteq> ws) evs) t) \<and>
         (\<forall>x. x \<noteq> ws \<longrightarrow> exits (serve rnd cerr evs s) x = exits (serve rnd cerr (filter (\<lambda>e. fst e \<noteq> ws) evs) t) x) \<and>
         set (closed (serve rnd cerr evs s)) = insert ws (set (closed (serve rnd cerr (filter (\<lambda>e. fst e \<noteq> ws) evs) t))) \<and>
         exits (serve rnd cerr evs s) ws = exits s ws"
  using assms
proof (induction evs arbitrary: s t)
  case Nil
  then show ?case by simp
next
  case (Cons e evs)
  obtain c r where e: "e = (c, r)" by (cases e)
  show ?case
  proof (cases "c = ws")
    case True
    from Cons.prems(6) obtain y where n: "exits s ws = Some y" by blast
    from True e n Cons.IH [OF Cons.prems] show ?thesis by simp
  next
    case False
    with Cons.prems have ex: "exits s c = exits t c" by simp
    show ?thesis
    proof (cases "exits t c = None")
      case live: True
      note st = step_same [OF False Cons.prems, of rnd cerr r]
      from st Cons.prems(6) have six: "exits (WsHandler_step rnd cerr c r s) ws \<noteq> None" by simp
      from st have a: "connections (WsHandler_step rnd cerr c r s) = connections (WsHandler_step rnd cerr c r t)"
        and b: "rand_calls (WsHandler_step rnd cerr c r s) = rand_calls (WsHandler_step rnd cerr c r t)"
        and c: "sent (WsHandler_step rnd cerr c r s) = sent (WsHandler_step rnd cerr c r t)"
        and d: "\<forall>x. x \<noteq> ws \<longrightarrow> exits (WsHandler_step rnd cerr c r s) x = exits (WsHandler_step rnd cerr c r t) x"
        and f: "set (closed (WsHandler_step rnd cerr c r s)) = insert ws (set (closed (WsHandler_step rnd cerr c r t)))"
        and g: "exits (WsHandler_step rnd cerr c r s) ws = exits s ws"
        by blast+
      from Cons.IH [OF a b c d f six] g e False live ex show ?thesis by simp
    next
      case dead: False
      then obtain y where n: "exits t c = Some y" by blast
      from e False ex n Cons.IH [OF Cons.prems] show ?thesis by simp
    qed
  qed
qed

lemma two_joined_fields:
  "connections two_joined = [''AB'' \<mapsto> [1, 2]]" "sent two_joined = []"
  "exits two_joined = Map.empty" "closed two_joined = []" "rand_calls two_joined = 0"
  by (simp_all add: two_joined_def WsHandler_step_def dispatch_def members_def init_server_def
      connectChannel_req_def)

lemma srv_AAAA_fields:
  "connections srv_AAAA = reg_AAAA" "rand_calls srv_AAAA = 0" "sent srv_AAAA = []"
  "closed srv_AAAA = []" "exits srv_AAAA = Map.empty"
  by (simp_all add: srv_AAAA_def init_server_def)

section \<open>The claims\<close>

subsection \<open>C1: broadcast of a send message\<close>




subsection \<open>C2: the channel id generator\<close>

text \<open>
  C2. A code that the generator returns without error is not a key of the registry it was
  given, has exactly 4 characters and every character is one of the letters A to Z. The
  generator makes \<open>n\<close> tries, at most 20, each of 4 draws: it returns the first drawn code
  that is not registered, and it signals exhaustion (the empty id with the error flag)
  exactly after 20 tries that all drew a registered code.
\<close>

theorem C2_generateChannelId:
  assumes "generateChannelId rnd m k = (cid, err, k')"
  shows "\<exists>n. n \<le> 20 \<and> k' = k + 4 * n \<and>
       (\<not> err \<longrightarrow> cid \<notin> dom m \<and> length cid = 4 \<and>
           set cid \<subseteq> set ''ABCDEFGHIJKLMNOPQRSTUVWXYZ'' \<and>
           1 \<le> n \<and> cid = fill_id rnd (k + 4 * (n - 1)) \<and>
           (\<forall>j<n - 1. fill_id rnd (k + 4 * j) \<in> dom m)) \<and>
       (err \<longrightarrow> cid = '''' \<and> n = 20 \<and> (\<forall>j<n. fill_id rnd (k + 4 * j) \<in> dom m))"
proof -
  from assms have t: "try_loop rnd m 0 k = (cid, err, k')"
    by (simp add: generateChannelId_def)
  from try_loop_char [OF t] obtain n where
    n: "n \<le> generateMaxTries" "k' = k + 4 * n"
    and ce: "err \<Longrightarrow> cid = '''' \<and> n = generateMaxTries \<and>
          (\<forall>j<n. m (fill_id rnd (k + 4 * j)) \<noteq> None)"
    and cs: "\<not> err \<Longrightarrow> 1 \<le> n \<and> cid = fill_id rnd (k + 4 * (n - 1)) \<and> m cid = None \<and>
          (\<forall>j<n - 1. m (fill_id rnd (k + 4 * j)) \<noteq> None)"
    by auto
  have ok: "\<not> err \<Longrightarrow> length cid = 4 \<and> set cid \<subseteq> set ''ABCDEFGHIJKLMNOPQRSTUVWXYZ''"
    using cs fill_id_length [of rnd] fill_id_letters [of rnd] by (auto simp: letters_def)
  from n ce cs ok show ?thesis
    by (intro exI [of _ n]) (auto simp: generateMaxTries_def dom_def)
qed

theorem C2_generateChannelId_witness:
  "generateChannelId rnd_quarter reg_AAAA 0 = (''BBBB'', False, 8) \<and>
   ''BBBB'' \<notin> dom reg_AAAA \<and> length ''BBBB'' = 4 \<and>
   set ''BBBB'' \<subseteq> set ''ABCDEFGHIJKLMNOPQRSTUVWXYZ''"
  using C2_generateChannelId [OF gen_example] gen_example by blast

subsection \<open>C3: cleanup and membership\<close>

text \<open>
  C3 does not hold of the code: the deferred cleanup only closes the connection (the
  source marks the removal from the channel as a TODO). Connection 1 joins \<open>AB\<close> and
  disconnects; after the cleanup it is still in the member list of \<open>AB\<close>.
\<close>

theorem C3_cleanup_keeps_member:
  "members (connections (serve rnd_zero close_ok
      [(1, Msg (connectChannel_req ''AB'')), (1, EOF)] init_server)) ''AB'' = [1] \<and>
   exits (serve rnd_zero close_ok
      [(1, Msg (connectChannel_req ''AB'')), (1, EOF)] init_server) 1 = Some Disconnected \<and>
   closed (serve rnd_zero close_ok
      [(1, Msg (connectChannel_req ''AB'')), (1, EOF)] init_server) = [1]"
  by (simp add: WsHandler_step_def dispatch_def cleanup_def members_def init_server_def
      connectChannel_req_def close_ok_def)

subsection \<open>C4: joining a second channel\<close>

text \<open>
  C4 does not hold of the code: \<^verbatim>\<open>connectChannel\<close> only appends to the list of the new
  channel (the source marks leaving the previous channel as a TODO). Connection 1 joins
  \<open>AB\<close> and then \<open>CD\<close>; afterwards it is a member of both.
\<close>

theorem C4_join_keeps_old_channel:
  "members (connections (serve rnd_zero close_ok
      [(1, Msg (connectChannel_req ''AB'')), (1, Msg (connectChannel_req ''CD''))] init_server)) ''AB'' = [1] \<and>
   members (connections (serve rnd_zero close_ok
      [(1, Msg (connectChannel_req ''AB'')), (1, Msg (connectChannel_req ''CD''))] init_server)) ''CD'' = [1]"
  by (simp add: WsHandler_step_def dispatch_def members_def init_server_def
      connectChannel_req_def)

subsection \<open>C5: an unrecognized command\<close>

text \<open>
  C5. A message whose command is none of the four recognized ones makes the handler of
  \<open>ws\<close> panic: the switch changes nothing, the cleanup closes \<open>ws\<close>, and the handler of
  \<open>ws\<close> has left with a panic. Everything else goes on as if \<open>ws\<close> had fallen silent: any
  further run has the registry, the random draws, the sends and the exits of all other
  connections of the run without the receive results of \<open>ws\<close>, and closes no connection
  but \<open>ws\<close> in addition.
\<close>

theorem C5_unhandled_command:
  assumes "Command d \<notin> {'''', ''requestChannelId'', ''connectChannel'', ''send''}"
    and "exits s ws = None"
  shows "dispatch rnd ws d s = (Some Unhandled, s) \<and>
     WsHandler_step rnd cerr ws (Msg d) s =
       s\<lparr>closed := closed s @ [ws],
         exits := (exits s)(ws \<mapsto> Panicked (if cerr ws then CloseFailed else Unhandled))\<rparr> \<and>
     connections (serve rnd cerr ((ws, Msg d) # evs) s) =
       connections (serve rnd cerr (filter (\<lambda>e. fst e \<noteq> ws) evs) s) \<and>
     rand_calls (serve rnd cerr ((ws, Msg d) # evs) s) =
       rand_calls (serve rnd cerr (filter (\<lambda>e. fst e \<noteq> ws) evs) s) \<and>
     sent (serve rnd cerr ((ws, Msg d) # evs) s) =
       sent (serve rnd cerr (filter (\<lambda>e. fst e \<noteq> ws) evs) s) \<and>
     (\<forall>c. c \<noteq> ws \<longrightarrow> exits (serve rnd cerr ((ws, Msg d) # evs) s) c =
       exits (serve rnd cerr (filter (\<lambda>e. fst e \<noteq> ws) evs) s) c) \<and>
     set (closed (serve rnd cerr ((ws, Msg d) # evs) s)) =
       insert ws (set (closed (serve rnd cerr (filter (\<lambda>e. fst e \<noteq> ws) evs) s))) \<and>
     exits (serve rnd cerr ((ws, Msg d) # evs) s) ws =
       Some (Panicked (if cerr ws then CloseFailed else Unhandled))"
proof -
  let ?s' = "s\<lparr>closed := closed s @ [ws],
         exits := (exits s)(ws \<mapsto> Panicked (if cerr ws then CloseFailed else Unhandled))\<rparr>"
  have d: "dispatch rnd ws d s = (Some Unhandled, s)"
    by (rule dispatch_unhandled [OF assms(1)])
  then have st: "WsHandler_step rnd cerr ws (Msg d) s = ?s'"
    by (simp add: WsHandler_step_def cleanup_def)
  have sv: "serve rnd cerr ((ws, Msg d) # evs) s = serve rnd cerr evs ?s'"
    using assms(2) st by simp
  have "connections ?s' = connections s" "rand_calls ?s' = rand_calls s" "sent ?s' = sent s"
    "\<forall>x. x \<noteq> ws \<longrightarrow> exits ?s' x = exits s x" "set (closed ?s') = insert ws (set (closed s))"
    "exits ?s' ws \<noteq> None"
    by simp_all
  from serve_same [OF this, of rnd cerr evs] d st show ?thesis
    unfolding sv by simp
qed

theorem C5_unhandled_command_witness:
  "Command bogus_req \<notin> {'''', ''requestChannelId'', ''connectChannel'', ''send''} \<and>
   exits two_joined 1 = None \<and>
   dispatch rnd_zero 1 bogus_req two_joined = (Some Unhandled, two_joined) \<and>
   exits (serve rnd_zero close_ok
      [(1, Msg bogus_req), (2, Msg (send_req ''AB'' ''hi''))] two_joined) 1 =
     Some (Panicked Unhandled) \<and>
   exits (serve rnd_zero close_ok
      [(1, Msg bogus_req), (2, Msg (send_req ''AB'' ''hi''))] two_joined) 2 = None \<and>
   sent (serve rnd_zero close_ok
      [(1, Msg bogus_req), (2, Msg (send_req ''AB'' ''hi''))] two_joined) =
     [(1, ReqJSON (send_req ''AB'' ''hi''))]"
proof -
  have c: "Command bogus_req \<notin> {'''', ''requestChannelId'', ''connectChannel'', ''send''}"
    by (simp add: bogus_req_def)
  have e: "exits two_joined 1 = None"
    by (simp add: two_joined_fields)
  have r: "sent (serve rnd_zero close_ok [(2, Msg (send_req ''AB'' ''hi''))] two_joined) =
      [(1, ReqJSON (send_req ''AB'' ''hi''))]"
    "exits (serve rnd_zero close_ok [(2, Msg (send_req ''AB'' ''hi''))] two_joined) 2 = None"
    by (simp_all add: two_joined_fields WsHandler_step_def dispatch_def members_def send_req_def)
  from C5_unhandled_command [OF c e, of rnd_zero close_ok "[(2, Msg (send_req ''AB'' ''hi''))]"]
    c e r show ?thesis
    by (simp del: serve.simps add: close_ok_def)
qed

subsection \<open>C6: exhaustion of the generator\<close>

text \<open>
  C6 (as amended). When the generator signals exhaustion during a
  \<^verbatim>\<open>requestChannelId\<close> command, the handler panics: nothing is sent, no channel is
  registered, and the cleanup closes the requesting connection, whose handler has left
  with a panic.
\<close>

theorem C6_exhaustion_panics:
  assumes "Command d = ''requestChannelId''"
    and "generateChannelId rnd (connections s) (rand_calls s) = (cid, True, k)"
  shows "dispatch rnd ws d s = (Some CouldNotGenerate, s\<lparr>rand_calls := k\<rparr>) \<and>
     WsHandler_step rnd cerr ws (Msg d) s =
       s\<lparr>rand_calls := k, closed := closed s @ [ws],
         exits := (exits s)(ws \<mapsto> Panicked (if cerr ws then CloseFailed else CouldNotGenerate))\<rparr> \<and>
     sent (WsHandler_step rnd cerr ws (Msg d) s) = sent s \<and>
     connections (WsHandler_step rnd cerr ws (Msg d) s) = connections s"
  using assms by (simp add: WsHandler_step_def dispatch_def cleanup_def)

theorem C6_exhaustion_panics_witness:
  "Command requestChannelId_req = ''requestChannelId'' \<and>
   generateChannelId rnd_zero (connections srv_AAAA) (rand_calls srv_AAAA) = ('''', True, 80) \<and>
   dispatch rnd_zero 2 requestChannelId_req srv_AAAA =
     (Some CouldNotGenerate, srv_AAAA\<lparr>rand_calls := 80\<rparr>) \<and>
   sent (WsHandler_step rnd_zero close_ok 2 (Msg requestChannelId_req) srv_AAAA) = []"
proof -
  have c: "Command requestChannelId_req = ''requestChannelId''"
    by (simp add: requestChannelId_req_def)
  have g: "generateChannelId rnd_zero (connections srv_AAAA) (rand_calls srv_AAAA) = ('''', True, 80)"
    by (simp add: srv_AAAA_fields gen_exhausted)
  from C6_exhaustion_panics [OF c g, of 2 close_ok] c g show ?thesis
    by (simp add: srv_AAAA_fields)
qed

text \<open>
  C6 as stated fails: with a random source that always draws \<open>AAAA\<close>, the second request
  finds \<open>AAAA\<close> registered 20 times; the handler of connection 2 panics and the only send
  of the run is the reply to connection 1.
\<close>

theorem C6_counterexample:
  "exits (serve rnd_zero close_ok
      [(1, Msg requestChannelId_req), (2, Msg requestChannelId_req)] init_server) 2 =
     Some (Panicked CouldNotGenerate) \<and>
   sent (serve rnd_zero close_ok
      [(1, Msg requestChannelId_req), (2, Msg requestChannelId_req)] init_server) =
     [(1, CidJSON \<lparr>ChannelId = ''AAAA''\<rparr>)]"
  by (simp add: WsHandler_step_def dispatch_def cleanup_def init_server_def
      requestChannelId_req_def close_ok_def
      generateChannelId_def try_loop.simps fill_id_def Intn_def letters_def
      generateMaxTries_def generateChannelIdLength_def upt_conv_Cons rnd_zero_def)

subsection \<open>C7: joining a channel\<close>

text \<open>
  What \<^verbatim>\<open>connectChannel\<close> does do: the join of code \<open>X\<close> by connection \<open>c\<close> always succeeds
  and appends \<open>c\<close> to the member list of \<open>X\<close>, creating the entry when \<open>X\<close> is not
  registered, so \<open>c\<close> is a member of \<open>X\<close> afterwards. Afterwards \<open>X\<close> is the only channel
  of \<open>c\<close> exactly when \<open>c\<close> was in no other channel before.
\<close>

lemma connectChannel_appends:
  assumes "Command d = ''connectChannel''"
  shows "dispatch rnd c d st =
       (None, st\<lparr>connections :=
          (connections st)(Channel d \<mapsto> members (connections st) (Channel d) @ [c])\<rparr>) \<and>
     (connections st (Channel d) = None \<longrightarrow>
        connections (snd (dispatch rnd c d st)) (Channel d) = Some [c]) \<and>
     c \<in> set (members (connections (snd (dispatch rnd c d st))) (Channel d)) \<and>
     ((\<forall>k. c \<in> set (members (connections (snd (dispatch rnd c d st))) k) \<longleftrightarrow> k = Channel d) \<longleftrightarrow>
      (\<forall>k. k \<noteq> Channel d \<longrightarrow> c \<notin> set (members (connections st) k)))"
  using dispatch_connect [OF assms, of rnd c st]
  by (auto simp: members_def)

text \<open>
  C7 does not hold of the code: the join succeeds and \<open>X\<close> gets \<open>c\<close> as a member, but the
  channel of \<open>c\<close> is not \<open>X\<close> alone when \<open>c\<close> was in another channel, because
  \<^verbatim>\<open>connectChannel\<close> does not take \<open>c\<close> out of it (the source marks leaving the previous
  channel as a TODO; the defect is the one of C4). Connection 1, a member of \<open>AB\<close>, joins
  \<open>CD\<close>: the join does not panic, and afterwards connection 1 is a member of \<open>CD\<close> and still
  a member of \<open>AB\<close>.
\<close>

theorem C7_join_keeps_other_membership:
  "1 \<in> set (members (connections two_joined) ''AB'') \<and>
   fst (dispatch rnd_zero 1 (connectChannel_req ''CD'') two_joined) = None \<and>
   1 \<in> set (members (connections (snd (dispatch rnd_zero 1 (connectChannel_req ''CD'') two_joined))) ''CD'') \<and>
   1 \<in> set (members (connections (snd (dispatch rnd_zero 1 (connectChannel_req ''CD'') two_joined))) ''AB'') \<and>
   ''AB'' \<noteq> ''CD''"
  by (simp add: two_joined_fields dispatch_def members_def connectChannel_req_def)

subsection \<open>C8: a successful requestChannelId\<close>

text \<open>
  C8. When the generator returns a code without error, the \<^verbatim>\<open>requestChannelId\<close>
  command registers the code with an empty member list and sends the requester the
  response with that code as its channel id; the code was not registered before, has 4
  characters and consists of the letters A to Z. The handler goes on.
\<close>

theorem C8_requestChannelId:
  assumes "Command d = ''requestChannelId''"
    and "generateChannelId rnd (connections s) (rand_calls s) = (cid, False, k)"
  shows "dispatch rnd ws d s =
       (None, s\<lparr>connections := (connections s)(cid \<mapsto> []), rand_calls := k,
                 sent := sent s @ [(ws, CidJSON \<lparr>ChannelId = cid\<rparr>)]\<rparr>) \<and>
     connections (snd (dispatch rnd ws d s)) cid = Some [] \<and>
     cid \<notin> dom (connections s) \<and> length cid = 4 \<and>
     set cid \<subseteq> set ''ABCDEFGHIJKLMNOPQRSTUVWXYZ''"
  using assms gen_ok [OF assms(2)] by (simp add: dispatch_def letters_def)

theorem C8_requestChannelId_witness:
  "Command requestChannelId_req = ''requestChannelId'' \<and>
   generateChannelId rnd_quarter (connections srv_AAAA) (rand_calls srv_AAAA) = (''BBBB'', False, 8) \<and>
   connections (snd (dispatch rnd_quarter 1 requestChannelId_req srv_AAAA)) ''BBBB'' = Some [] \<and>
   sent (snd (dispatch rnd_quarter 1 requestChannelId_req srv_AAAA)) =
     [(1, CidJSON \<lparr>ChannelId = ''BBBB''\<rparr>)]"
proof -
  have c: "Command requestChannelId_req = ''requestChannelId''"
    by (simp add: requestChannelId_req_def)
  have g: "generateChannelId rnd_quarter (connections srv_AAAA) (rand_calls srv_AAAA) = (''BBBB'', False, 8)"
    by (simp add: srv_AAAA_fields gen_example)
  from C8_requestChannelId [OF c g, of 1] c g show ?thesis
    by (simp add: srv_AAAA_fields)
qed

subsection \<open>C9: send to a channel that is not registered\<close>

text \<open>
  C9. A \<^verbatim>\<open>send\<close> message that names a code which is not a key of the registry changes
  nothing: no send, no panic, the same registry, and the handler goes on.
\<close>

theorem C9_send_unknown_channel:
  assumes "Command m = ''send''" and "Channel m \<notin> dom (connections st)"
  shows "dispatch rnd s m st = (None, st) \<and> WsHandler_step rnd cerr s (Msg m) st = st"
proof -
  from assms(2) have "members (connections st) (Channel m) = []"
    by (auto simp: members_def dom_def)
  with dispatch_send [OF assms(1), of rnd s st] show ?thesis
    by (simp add: WsHandler_step_def)
qed

theorem C9_send_unknown_channel_witness:
  "Command (send_req ''ZZ'' ''hi'') = ''send'' \<and>
   Channel (send_req ''ZZ'' ''hi'') \<notin> dom (connections two_joined) \<and>
   dispatch rnd_zero 1 (send_req ''ZZ'' ''hi'') two_joined = (None, two_joined) \<and>
   WsHandler_step rnd_zero close_ok 1 (Msg (send_req ''ZZ'' ''hi'')) two_joined = two_joined"
proof -
  have c: "Command (send_req ''ZZ'' ''hi'') = ''send''" by (simp add: send_req_def)
  have n: "Channel (send_req ''ZZ'' ''hi'') \<notin> dom (connections two_joined)"
    by (simp add: send_req_def two_joined_fields)
  from C9_send_unknown_channel [OF c n, of rnd_zero 1 close_ok] c n show ?thesis
    by simp
qed

subsection \<open>C10: the sender need not be a member\<close>

text \<open>
  C10. The sends of a \<^verbatim>\<open>send\<close> message of connection \<open>s\<close> to channel \<open>X\<close> are a function
  of the member list of \<open>X\<close>, of \<open>s\<close> and of the message: one send per entry of the list
  that differs from \<open>s\<close>. When \<open>s\<close> is not in the list, every entry gets the message; and the
  sends are the same whether or not \<open>s\<close> has joined \<open>X\<close> before.
\<close>

theorem C10_sender_membership_not_consulted:
  assumes "Command m = ''send''"
  shows "sent (snd (dispatch rnd s m st)) =
       sent st @ map (\<lambda>c. (c, ReqJSON m))
         (filter (\<lambda>c. c \<noteq> s) (members (connections st) (Channel m))) \<and>
     (s \<notin> set (members (connections st) (Channel m)) \<longrightarrow>
        send_loop s m (members (connections st) (Channel m)) [] =
          map (\<lambda>c. (c, ReqJSON m)) (members (connections st) (Channel m))) \<and>
     send_loop s m (members (connections
          (snd (dispatch rnd s (m\<lparr>Command := ''connectChannel''\<rparr>) st))) (Channel m)) [] =
       send_loop s m (members (connections st) (Channel m)) []"
proof -
  have j: "Command (m\<lparr>Command := ''connectChannel''\<rparr>) = ''connectChannel''" by simp
  have f: "s \<notin> set cs \<Longrightarrow> filter (\<lambda>c. c \<noteq> s) cs = cs" for cs
    by (induction cs) auto
  from dispatch_send [OF assms, of rnd s st] dispatch_connect [OF j, of rnd s st] f
  show ?thesis
    by (simp add: send_loop_eq members_def)
qed

theorem C10_sender_membership_not_consulted_witness:
  "Command (send_req ''AB'' ''hi'') = ''send'' \<and>
   3 \<notin> set (members (connections two_joined) ''AB'') \<and>
   sent (snd (dispatch rnd_zero 3 (send_req ''AB'' ''hi'') two_joined)) =
     [(1, ReqJSON (send_req ''AB'' ''hi'')), (2, ReqJSON (send_req ''AB'' ''hi''))]"
proof -
  have c: "Command (send_req ''AB'' ''hi'') = ''send''" by (simp add: send_req_def)
  have ch: "Channel (send_req ''AB'' ''hi'') = ''AB''" by (simp add: send_req_def)
  have m: "members (connections two_joined) ''AB'' = [1, 2]"
    by (simp add: two_joined_fields members_def)
  from C10_sender_membership_not_consulted [OF c, of rnd_zero 3 two_joined] c show ?thesis
    unfolding ch m by (simp add: two_joined_fields)
qed

end
